theory Spec2Isabelle
  imports Main "HOL-Library.AList"
begin

section \<open>JavaScript values\<close>

text \<open>
  The monitoring service (\<^verbatim>\<open>src/monitoring/monitor.js\<close>) stores whatever the JSON
  body of a request carries, so the model starts from the values JSON can denote, plus
  \<open>undefined\<close> for a property that is absent. Numbers are modelled as integers: the
  counters and timestamps of the service are integers, and double arithmetic is exact
  on integers below \<open>2^53\<close>. Strings are ASCII.
\<close>

datatype jsval =
    JUndefined
  | JNull
  | JBool bool
  | JNum int
  | JStr string
  | JArr "jsval list"
  | JObj "(string \<times> jsval) list"

text \<open>ToBoolean: what \<^verbatim>\<open>!x\<close>, \<^verbatim>\<open>x || y\<close> and \<^verbatim>\<open>if (x)\<close> test.\<close>

fun truthy :: "jsval \<Rightarrow> bool" where
  "truthy JUndefined = False"
| "truthy JNull = False"
| "truthy (JBool b) = b"
| "truthy (JNum n) = (n \<noteq> 0)"
| "truthy (JStr s) = (s \<noteq> [])"
| "truthy (JArr xs) = True"
| "truthy (JObj kvs) = True"

text \<open>Reading an own property of a value: \<^verbatim>\<open>v.f\<close> for a name \<open>f\<close> that no prototype
  defines (\<^verbatim>\<open>serverId\<close>, \<^verbatim>\<open>status\<close>, \<^verbatim>\<open>checksCount\<close>, \<^verbatim>\<open>level\<close>, ...).\<close>

fun js_get :: "jsval \<Rightarrow> string \<Rightarrow> jsval" where
  "js_get (JObj kvs) f = (case map_of kvs f of Some v \<Rightarrow> v | None \<Rightarrow> JUndefined)"
| "js_get v f = JUndefined"

text \<open>Decimal digits of a natural number, as \<^verbatim>\<open>Number.prototype.toString\<close> prints them;
  \<open>digit_char\<close> is only applied to a digit below 10.\<close>

definition digit_char :: "nat \<Rightarrow> char" where
  "digit_char d = ''0123456789'' ! d"

function dec :: "nat \<Rightarrow> string" where
  "dec n = (if n < 10 then [digit_char n] else dec (n div 10) @ [digit_char (n mod 10)])"
  by pat_completeness auto
termination
  by (relation "measure id") auto

declare dec.simps [simp del]

definition number_to_string :: "int \<Rightarrow> string" where
  "number_to_string n = (if n < 0 then CHR ''-'' # dec (nat (- n)) else dec (nat n))"

fun join :: "string \<Rightarrow> string list \<Rightarrow> string" where
  "join sep [] = []"
| "join sep [x] = x"
| "join sep (x # y # ys) = x @ sep @ join sep (y # ys)"

text \<open>
  ToString, used by a computed property key, by a template literal and by \<^verbatim>\<open>+\<close> with
  a string operand. \<open>None\<close> is the TypeError JavaScript raises for an object whose own
  \<^verbatim>\<open>toString\<close> property hides \<^verbatim>\<open>Object.prototype.toString\<close>: a JSON value is never
  callable, and \<^verbatim>\<open>Object.prototype.valueOf\<close> returns the object itself.
\<close>

fun js_to_string :: "jsval \<Rightarrow> string option" where
  "js_to_string JUndefined = Some ''undefined''"
| "js_to_string JNull = Some ''null''"
| "js_to_string (JBool b) = Some (if b then ''true'' else ''false'')"
| "js_to_string (JNum n) = Some (number_to_string n)"
| "js_to_string (JStr s) = Some s"
| "js_to_string (JArr xs) =
     map_option (join '','')
       (those (map (\<lambda>v. if v = JNull \<or> v = JUndefined then Some [] else js_to_string v) xs))"
| "js_to_string (JObj kvs) =
     (if map_of kvs ''toString'' = None then Some ''[object Object]'' else None)"

section \<open>The table of servers\<close>

text \<open>One entry of \<^verbatim>\<open>metrics.servers\<close>, as the object literal of the health-check
  handler builds it. Every field but \<^verbatim>\<open>lastChecked\<close> holds what the request gave.\<close>

record server =
  name :: jsval
  status :: jsval
  responseTime :: jsval
  error :: jsval
  lastChecked :: int
  checksCount :: jsval

text \<open>
  \<^verbatim>\<open>metrics.servers\<close> is created by the literal \<^verbatim>\<open>{}\<close>, an ordinary object whose
  prototype is \<^verbatim>\<open>Object.prototype\<close>. \<open>own\<close> lists its own properties in insertion
  order (what \<^verbatim>\<open>Object.keys\<close> and \<^verbatim>\<open>Object.values\<close> enumerate); \<open>proto\<close> is
  \<open>None\<close> while the prototype is still \<^verbatim>\<open>Object.prototype\<close> and \<open>Some r\<close> once an
  assignment to the key \<^verbatim>\<open>__proto__\<close> has replaced it by the entry \<open>r\<close>.
\<close>

record servers_obj =
  own :: "(string \<times> server) list"
  proto :: "server option"

text \<open>What a property read \<^verbatim>\<open>metrics.servers[k]\<close> can yield.\<close>

datatype lookup =
    Rec server
  | Val jsval
  | Builtin string
  | ObjectPrototype

definition object_prototype_names :: "string list" where
  "object_prototype_names =
     [''constructor'', ''__defineGetter__'', ''__defineSetter__'', ''hasOwnProperty'',
      ''__lookupGetter__'', ''__lookupSetter__'', ''isPrototypeOf'',
      ''propertyIsEnumerable'', ''toString'', ''valueOf'', ''toLocaleString'']"

definition server_fields :: "server \<Rightarrow> (string \<times> jsval) list" where
  "server_fields r =
     [(''name'', name r), (''status'', status r), (''responseTime'', responseTime r),
      (''error'', error r), (''lastChecked'', JNum (lastChecked r)),
      (''checksCount'', checksCount r)]"

text \<open>
  \<^verbatim>\<open>metrics.servers[k]\<close>: the accessor \<^verbatim>\<open>__proto__\<close> answers with the prototype; any
  other key is looked up among the own properties, then along the prototype chain (the
  entry installed as prototype, if any, then \<^verbatim>\<open>Object.prototype\<close>).
\<close>

definition get_server :: "servers_obj \<Rightarrow> string \<Rightarrow> lookup" where
  "get_server sv k =
     (if k = ''__proto__'' then (case proto sv of None \<Rightarrow> ObjectPrototype | Some r \<Rightarrow> Rec r)
      else case map_of (own sv) k of
        Some r \<Rightarrow> Rec r
      | None \<Rightarrow>
          (case (case proto sv of None \<Rightarrow> None | Some r \<Rightarrow> map_of (server_fields r) k) of
             Some v \<Rightarrow> Val v
           | None \<Rightarrow> if k \<in> set object_prototype_names then Builtin k else Val JUndefined))"

text \<open>
  \<^verbatim>\<open>metrics.servers[k] = r\<close>: the setter of \<^verbatim>\<open>__proto__\<close> makes \<open>r\<close> the prototype;
  any other key becomes (or stays) an own property.
\<close>

definition set_server :: "servers_obj \<Rightarrow> string \<Rightarrow> server \<Rightarrow> servers_obj" where
  "set_server sv k r =
     (if k = ''__proto__'' then sv\<lparr>proto := Some r\<rparr>
      else sv\<lparr>own := AList.update k r (own sv)\<rparr>)"

text \<open>\<^verbatim>\<open>!server\<close> and \<^verbatim>\<open>server.f\<close> for \<open>f\<close> one of \<^verbatim>\<open>checksCount\<close>, \<^verbatim>\<open>status\<close>,
  \<^verbatim>\<open>responseTime\<close>; on \<open>undefined\<close> and \<open>null\<close> this is the optional read \<^verbatim>\<open>server?.f\<close>.\<close>

fun lookup_truthy :: "lookup \<Rightarrow> bool" where
  "lookup_truthy (Rec r) = True"
| "lookup_truthy (Val v) = truthy v"
| "lookup_truthy (Builtin f) = True"
| "lookup_truthy ObjectPrototype = True"

fun lookup_get :: "lookup \<Rightarrow> string \<Rightarrow> jsval" where
  "lookup_get (Rec r) f = (case map_of (server_fields r) f of Some v \<Rightarrow> v | None \<Rightarrow> JUndefined)"
| "lookup_get (Val v) f = js_get v f"
| "lookup_get (Builtin g) f = JUndefined"
| "lookup_get ObjectPrototype f = JUndefined"

text \<open>The own enumerable properties a spread \<^verbatim>\<open>...server\<close> copies.\<close>

fun spread :: "lookup \<Rightarrow> (string \<times> jsval) list" where
  "spread (Rec r) = server_fields r"
| "spread (Val (JObj kvs)) = kvs"
| "spread (Val (JArr xs)) = zip (map dec [0..<length xs]) xs"
| "spread (Val (JStr s)) = zip (map dec [0..<length s]) (map (\<lambda>c. JStr [c]) s)"
| "spread (Val v) = []"
| "spread (Builtin f) = []"
| "spread ObjectPrototype = []"

text \<open>An object literal: a later property of the same name replaces the value of the
  earlier one and keeps its place.\<close>

definition obj_literal :: "(string \<times> jsval) list \<Rightarrow> jsval" where
  "obj_literal kvs = JObj (foldl (\<lambda>acc (k, v). AList.update k v acc) [] kvs)"

text \<open>\<^verbatim>\<open>xs.slice(start)\<close> for an integer \<open>start\<close>: a negative start counts from the end.\<close>

definition js_slice :: "int \<Rightarrow> 'a list \<Rightarrow> 'a list" where
  "js_slice start xs =
     (if start < 0 then drop (nat (int (length xs) + start)) xs else drop (nat start) xs)"

section \<open>The metrics store\<close>

text \<open>One point of \<^verbatim>\<open>metrics.history\<close> (\<^verbatim>\<open>currentMetrics\<close> of \<^verbatim>\<open>collectMetrics\<close>). The
  fields \<open>h_totalRequests\<close>, \<open>h_errorCount\<close> and \<open>h_servers\<close> are the source's
  \<^verbatim>\<open>totalRequests\<close>, \<^verbatim>\<open>errorCount\<close> and \<^verbatim>\<open>servers\<close>.\<close>

record sample =
  timestamp :: int
  uptime :: int
  h_totalRequests :: int
  h_errorCount :: int
  h_servers :: int
  healthyServers :: int

record system_stats =
  startTime :: int
  totalRequests :: int
  errorCount :: int
  lastUpdate :: int

record metrics =
  servers :: servers_obj
  systemStats :: system_stats
  history :: "sample list"

text \<open>What \<^verbatim>\<open>log\<close> appends to the log file (its own timestamp left out).\<close>

record log_entry =
  level :: string
  message :: string
  data :: jsval

record response =
  http_status :: nat
  json_body :: jsval

text \<open>The module's initial state; \<open>t0\<close> and \<open>t1\<close> are the two clock readings.\<close>

definition initial :: "int \<Rightarrow> int \<Rightarrow> metrics" where
  "initial t0 t1 =
     \<lparr>servers = \<lparr>own = [], proto = None\<rparr>,
      systemStats = \<lparr>startTime = t0, totalRequests = 0, errorCount = 0, lastUpdate = t1\<rparr>,
      history = []\<rparr>"

text \<open>\<^verbatim>\<open>metrics.systemStats.totalRequests++\<close> and \<^verbatim>\<open>metrics.systemStats.errorCount++\<close>.\<close>

definition count_request :: "metrics \<Rightarrow> metrics" where
  "count_request m =
     m\<lparr>systemStats := (systemStats m)\<lparr>totalRequests := totalRequests (systemStats m) + 1\<rparr>\<rparr>"

definition count_error :: "metrics \<Rightarrow> metrics" where
  "count_error m =
     m\<lparr>systemStats := (systemStats m)\<lparr>errorCount := errorCount (systemStats m) + 1\<rparr>\<rparr>"

definition server_count :: "metrics \<Rightarrow> int" where
  "server_count m = int (length (map fst (own (servers m))))"

definition healthy_count :: "metrics \<Rightarrow> int" where
  "healthy_count m =
     int (length (filter (\<lambda>s. status s = JStr ''healthy'') (map snd (own (servers m)))))"

definition sample_json :: "sample \<Rightarrow> jsval" where
  "sample_json h =
     JObj [(''timestamp'', JNum (timestamp h)), (''uptime'', JNum (uptime h)),
           (''totalRequests'', JNum (h_totalRequests h)),
           (''errorCount'', JNum (h_errorCount h)), (''servers'', JNum (h_servers h)),
           (''healthyServers'', JNum (healthyServers h))]"

definition currentMetrics :: "int \<Rightarrow> metrics \<Rightarrow> sample" where
  "currentMetrics now m =
     \<lparr>timestamp = now, uptime = now - startTime (systemStats m),
      h_totalRequests = totalRequests (systemStats m),
      h_errorCount = errorCount (systemStats m),
      h_servers = server_count m, healthyServers = healthy_count m\<rparr>"

text \<open>\<^verbatim>\<open>collectMetrics\<close>: push the sample, shift once when more than 100 are held.\<close>

definition collectMetrics :: "int \<Rightarrow> metrics \<Rightarrow> metrics \<times> log_entry list" where
  "collectMetrics now m =
     (let pushed = history m @ [currentMetrics now m];
          kept = (if length pushed > 100 then tl pushed else pushed)
      in (m\<lparr>history := kept, systemStats := (systemStats m)\<lparr>lastUpdate := now\<rparr>\<rparr>,
          [\<lparr>level = ''info'', message = ''Metrics collected'',
            data = sample_json (currentMetrics now m)\<rparr>]))"

section \<open>The request handlers\<close>

text \<open>\<^verbatim>\<open>!v\<close>.\<close>

fun js_not :: "jsval \<Rightarrow> bool" where
  "js_not v = (\<not> truthy v)"

text \<open>
  \<^verbatim>\<open>(x || 0) + 1\<close>, the next check counter: a falsy \<open>x\<close> gives \<open>0 + 1\<close>, a number is
  incremented, \<^verbatim>\<open>true\<close> counts as 1, and a string, array or object operand turns
  \<^verbatim>\<open>+\<close> into concatenation (or into the TypeError of \<open>js_to_string\<close>).
\<close>

definition next_checksCount :: "jsval \<Rightarrow> jsval option" where
  "next_checksCount x =
     (if js_not x then Some (JNum 1)
      else case x of
        JNum n \<Rightarrow> Some (JNum (n + 1))
      | JBool b \<Rightarrow> Some (JNum 2)
      | JStr s \<Rightarrow> Some (JStr (s @ ''1''))
      | _ \<Rightarrow> map_option (\<lambda>t. JStr (t @ ''1'')) (js_to_string x))"

text \<open>The error-handling middleware, which Express runs when a handler throws.\<close>

definition server_error :: "metrics \<Rightarrow> metrics \<times> response \<times> log_entry list" where
  "server_error m =
     (count_error m,
      \<lparr>http_status = 500, json_body = JObj [(''error'', JStr ''Internal server error'')]\<rparr>,
      [\<lparr>level = ''error'', message = ''Server error'', data = JObj []\<rparr>])"

text \<open>
  \<^verbatim>\<open>POST /api/health-check\<close>. \<open>body\<close> lists the own properties of \<^verbatim>\<open>req.body\<close>, the
  parsed JSON object (each name once; \<open>[]\<close> for a request without a JSON body);
  \<open>now\<close> is the clock reading stored as \<^verbatim>\<open>lastChecked\<close>. The computed key, the
  counter and the template literal of the log message can each throw, the last one after
  the entry has been stored.
\<close>

definition post_health_check ::
  "int \<Rightarrow> (string \<times> jsval) list \<Rightarrow> metrics \<Rightarrow> metrics \<times> response \<times> log_entry list" where
  "post_health_check now body m =
     (let m1 = count_request m;
          serverId = js_get (JObj body) ''serverId'';
          serverName = js_get (JObj body) ''serverName'';
          status' = js_get (JObj body) ''status'';
          responseTime' = js_get (JObj body) ''responseTime'';
          error' = js_get (JObj body) ''error''
      in if js_not serverId \<or> js_not serverName \<or> js_not status' then
           (count_error m1,
            \<lparr>http_status = 400, json_body = JObj [(''error'', JStr ''Missing required fields'')]\<rparr>,
            [])
         else
           case js_to_string serverId of
             None \<Rightarrow> server_error m1
           | Some k \<Rightarrow>
              (case next_checksCount (lookup_get (get_server (servers m1) k) ''checksCount'') of
                 None \<Rightarrow> server_error m1
               | Some c \<Rightarrow>
                  (let m2 = m1\<lparr>servers := set_server (servers m1) k
                              \<lparr>name = serverName, status = status',
                               responseTime = responseTime', error = error',
                               lastChecked = now, checksCount = c\<rparr>\<rparr>
                   in case js_to_string serverName of
                        None \<Rightarrow> server_error m2
                      | Some nm \<Rightarrow>
                         (m2,
                          \<lparr>http_status = 200,
                           json_body = JObj [(''success'', JBool True),
                                             (''message'', JStr ''Health check recorded'')]\<rparr>,
                          [\<lparr>level = ''info'', message = ''Health check for '' @ nm,
                            data = JObj [(''serverId'', serverId), (''status'', status'),
                                         (''responseTime'', responseTime'),
                                         (''error'', error')]\<rparr>]))))"

definition servers_json :: "servers_obj \<Rightarrow> jsval" where
  "servers_json sv = JObj (map (\<lambda>(k, r). (k, JObj (server_fields r))) (own sv))"

text \<open>\<^verbatim>\<open>GET /api/metrics\<close>; \<open>now\<close>, \<open>t1\<close> and \<open>t2\<close> are its three clock readings.\<close>

definition get_metrics ::
  "int \<Rightarrow> int \<Rightarrow> int \<Rightarrow> metrics \<Rightarrow> metrics \<times> response \<times> log_entry list" where
  "get_metrics now t1 t2 m =
     (let m1 = count_request m;
          (m2, logged) = collectMetrics now m1
      in (m2,
          \<lparr>http_status = 200,
           json_body = JObj
             [(''current'', JObj
                 [(''timestamp'', JNum t1),
                  (''uptime'', JNum (t2 - startTime (systemStats m2))),
                  (''totalRequests'', JNum (totalRequests (systemStats m2))),
                  (''errorCount'', JNum (errorCount (systemStats m2))),
                  (''servers'', servers_json (servers m2)),
                  (''serverCount'', JNum (server_count m2)),
                  (''healthyCount'', JNum (healthy_count m2))]),
              (''history'', JArr (map sample_json (js_slice (- 20) (history m2))))]\<rparr>,
          logged))"

text \<open>\<^verbatim>\<open>GET /api/metrics/:serverId\<close>.\<close>

definition history_point :: "lookup \<Rightarrow> sample \<Rightarrow> jsval" where
  "history_point server h =
     JObj [(''timestamp'', JNum (timestamp h)),
           (''status'', lookup_get server ''status''),
           (''responseTime'', lookup_get server ''responseTime'')]"

definition get_server_metrics ::
  "string \<Rightarrow> metrics \<Rightarrow> metrics \<times> response \<times> log_entry list" where
  "get_server_metrics serverId m =
     (let m1 = count_request m;
          server = get_server (servers m1) serverId
      in if \<not> lookup_truthy server then
           (count_error m1,
            \<lparr>http_status = 404, json_body = JObj [(''error'', JStr ''Server not found'')]\<rparr>,
            [])
         else
           (m1,
            \<lparr>http_status = 200,
             json_body = obj_literal
               ([(''serverId'', JStr serverId)] @ spread server @
                [(''history'',
                  JArr (js_slice (- 20) (map (history_point server) (history m1))))])\<rparr>,
            []))"

text \<open>
  \<^verbatim>\<open>parseInt\<close> on a string: leading white space, a sign, a \<^verbatim>\<open>0x\<close> prefix, then the
  longest run of digits; \<open>None\<close> is NaN.
\<close>

definition is_space :: "char \<Rightarrow> bool" where
  "is_space c = (c \<in> set [CHR 0x09, CHR 0x0A, CHR 0x0B, CHR 0x0C, CHR 0x0D, CHR '' ''])"

definition digit_value :: "char \<Rightarrow> nat option" where
  "digit_value = map_of
     [(CHR ''0'', 0), (CHR ''1'', 1), (CHR ''2'', 2), (CHR ''3'', 3), (CHR ''4'', 4),
      (CHR ''5'', 5), (CHR ''6'', 6), (CHR ''7'', 7), (CHR ''8'', 8), (CHR ''9'', 9),
      (CHR ''a'', 10), (CHR ''b'', 11), (CHR ''c'', 12), (CHR ''d'', 13), (CHR ''e'', 14),
      (CHR ''f'', 15), (CHR ''A'', 10), (CHR ''B'', 11), (CHR ''C'', 12), (CHR ''D'', 13),
      (CHR ''E'', 14), (CHR ''F'', 15)]"

fun leading_digits :: "nat \<Rightarrow> string \<Rightarrow> nat list" where
  "leading_digits radix [] = []"
| "leading_digits radix (c # cs) =
     (case digit_value c of
        Some d \<Rightarrow> if d < radix then d # leading_digits radix cs else []
      | None \<Rightarrow> [])"

definition digits_value :: "nat \<Rightarrow> nat list \<Rightarrow> nat" where
  "digits_value radix ds = foldl (\<lambda>acc d. acc * radix + d) 0 ds"

definition parseInt :: "string \<Rightarrow> int option" where
  "parseInt s =
     (let s1 = dropWhile is_space s;
          neg = (take 1 s1 = ''-'');
          s2 = (if take 1 s1 = ''-'' \<or> take 1 s1 = ''+'' then drop 1 s1 else s1);
          hex = (take 2 s2 = ''0x'' \<or> take 2 s2 = ''0X'');
          radix = (if hex then 16 else 10);
          ds = leading_digits radix (if hex then drop 2 s2 else s2)
      in if ds = [] then None
         else Some ((if neg then - 1 else 1) * int (digits_value radix ds)))"

text \<open>\<^verbatim>\<open>parseInt(req.query.limit) || 100\<close>; an absent parameter is NaN as well.\<close>

definition limit_of :: "string option \<Rightarrow> int" where
  "limit_of q =
     (case q of
        None \<Rightarrow> 100
      | Some s \<Rightarrow> (case parseInt s of None \<Rightarrow> 100 | Some n \<Rightarrow> if n = 0 then 100 else n))"

text \<open>
  A line of the log file, as the handler treats it: blank after \<^verbatim>\<open>trim\<close>, refused by
  \<^verbatim>\<open>JSON.parse\<close>, or parsed to a value.
\<close>

datatype log_line = Blank | Malformed | Parsed jsval

fun parsed_logs :: "log_line list \<Rightarrow> jsval list" where
  "parsed_logs [] = []"
| "parsed_logs (Blank # ls) = parsed_logs ls"
| "parsed_logs (Malformed # ls) = parsed_logs ls"
| "parsed_logs (Parsed v # ls) = (if v = JNull then parsed_logs ls else v # parsed_logs ls)"

definition level_given :: "string option \<Rightarrow> bool" where
  "level_given q = (case q of None \<Rightarrow> False | Some l \<Rightarrow> l \<noteq> [])"

definition filteredLogs :: "string option \<Rightarrow> log_line list \<Rightarrow> jsval list" where
  "filteredLogs q ls =
     (case q of
        None \<Rightarrow> parsed_logs ls
      | Some l \<Rightarrow>
          if l \<noteq> [] then filter (\<lambda>v. js_get v ''level'' = JStr l) (parsed_logs ls)
          else parsed_logs ls)"

text \<open>
  \<^verbatim>\<open>GET /api/logs\<close>. \<open>limit\<close> and \<open>level'\<close> are the query parameters of these names,
  \<open>None\<close> when absent. \<open>file\<close> is what \<^verbatim>\<open>readFileSync\<close> does: \<open>Inl e\<close> throws the
  error \<open>e\<close>, \<open>Inr ls\<close> returns the lines \<open>ls\<close>.
\<close>

definition get_logs ::
  "string option \<Rightarrow> string option \<Rightarrow> jsval + log_line list \<Rightarrow> metrics \<Rightarrow>
   metrics \<times> response \<times> log_entry list" where
  "get_logs limit level' file m =
     (let m1 = count_request m in
      case file of
        Inr ls \<Rightarrow>
          (m1,
           \<lparr>http_status = 200,
            json_body = JObj
              [(''logs'', JArr (js_slice (- limit_of limit) (filteredLogs level' ls))),
               (''total'', JNum (int (length (filteredLogs level' ls)))),
               (''filtered'', JBool (level_given level'))]\<rparr>,
           [])
      | Inl e \<Rightarrow>
          (count_error m1,
           \<lparr>http_status = 500, json_body = JObj [(''error'', JStr ''Failed to read logs'')]\<rparr>,
           [\<lparr>level = ''error'', message = ''Failed to read logs'', data = e\<rparr>]))"

text \<open>\<^verbatim>\<open>GET /api/health\<close>.\<close>

definition get_health :: "int \<Rightarrow> int \<Rightarrow> metrics \<Rightarrow> metrics \<times> response \<times> log_entry list" where
  "get_health t1 t2 m =
     (let m1 = count_request m in
      (m1,
       \<lparr>http_status = 200,
        json_body = JObj [(''status'', JStr ''healthy''), (''timestamp'', JNum t1),
                          (''uptime'', JNum (t2 - startTime (systemStats m1))),
                          (''version'', JStr ''1.0.0'')]\<rparr>,
       []))"

section \<open>Runs of the service\<close>

text \<open>
  What can happen to the store: a request to one of the routes, a tick of the timer
  (\<^verbatim>\<open>setInterval(collectMetrics, 30000)\<close> and the call at start-up), or a request
  whose body \<^verbatim>\<open>express.json()\<close> refuses, which goes to the error-handling middleware
  without reaching a handler. The dashboard page at \<^verbatim>\<open>/\<close> does not touch the store.
\<close>

datatype event =
    HealthCheck int "(string \<times> jsval) list"
  | Metrics int int int
  | ServerMetrics string
  | Logs "string option" "string option" "jsval + log_line list"
  | Health int int
  | Tick int
  | BodyParseError

fun step :: "metrics \<Rightarrow> event \<Rightarrow> metrics" where
  "step m (HealthCheck now body) = fst (post_health_check now body m)"
| "step m (Metrics now t1 t2) = fst (get_metrics now t1 t2 m)"
| "step m (ServerMetrics k) = fst (get_server_metrics k m)"
| "step m (Logs limit level' file) = fst (get_logs limit level' file m)"
| "step m (Health t1 t2) = fst (get_health t1 t2 m)"
| "step m (Tick now) = fst (collectMetrics now m)"
| "step m BodyParseError = fst (server_error m)"

definition run :: "metrics \<Rightarrow> event list \<Rightarrow> metrics" where
  "run m evs = foldl step m evs"

text \<open>
  The key under which a report is stored: the computed property key of its
  \<^verbatim>\<open>serverId\<close>, when the report passes the validation and the key can be computed.
\<close>

fun report_key :: "event \<Rightarrow> string option" where
  "report_key (HealthCheck now body) =
     (if js_not (js_get (JObj body) ''serverId'') \<or> js_not (js_get (JObj body) ''serverName'')
         \<or> js_not (js_get (JObj body) ''status'')
      then None else js_to_string (js_get (JObj body) ''serverId''))"
| "report_key e = None"

text \<open>
  \<open>counted k n m\<close>: the table still has \<^verbatim>\<open>Object.prototype\<close> as its prototype, and
  it holds an entry for \<open>k\<close> exactly when \<open>n\<close> is positive, with \<open>n\<close> as its counter.
\<close>

definition counted :: "string \<Rightarrow> nat \<Rightarrow> metrics \<Rightarrow> bool" where
  "counted k n m =
     (proto (servers m) = None \<and>
      (case map_of (own (servers m)) k of
         None \<Rightarrow> n = 0
       | Some r \<Rightarrow> 0 < n \<and> checksCount r = JNum (int n)))"

lemmas handler_defs =
  post_health_check_def get_server_metrics_def get_metrics_def collectMetrics_def
  get_logs_def get_health_def server_error_def
  count_request_def count_error_def initial_def run_def
  get_server_def set_server_def server_fields_def object_prototype_names_def
  next_checksCount_def obj_literal_def history_point_def js_slice_def
  currentMetrics_def server_count_def healthy_count_def sample_json_def servers_json_def
  limit_of_def filteredLogs_def level_given_def

lemmas parse_defs = parseInt_def is_space_def digit_value_def digits_value_def

section \<open>Basic facts about the counters\<close>

lemma count_request_simps:
  "servers (count_request m) = servers m"
  "history (count_request m) = history m"
  "startTime (systemStats (count_request m)) = startTime (systemStats m)"
  "totalRequests (systemStats (count_request m)) = totalRequests (systemStats m) + 1"
  "errorCount (systemStats (count_request m)) = errorCount (systemStats m)"
  "lastUpdate (systemStats (count_request m)) = lastUpdate (systemStats m)"
  by (simp_all add: count_request_def)

lemma count_error_simps:
  "servers (count_error m) = servers m"
  "history (count_error m) = history m"
  "startTime (systemStats (count_error m)) = startTime (systemStats m)"
  "totalRequests (systemStats (count_error m)) = totalRequests (systemStats m)"
  "errorCount (systemStats (count_error m)) = errorCount (systemStats m) + 1"
  "lastUpdate (systemStats (count_error m)) = lastUpdate (systemStats m)"
  by (simp_all add: count_error_def)

section \<open>Rejected reports\<close>

lemma post_invalid:
  assumes "js_not (js_get (JObj body) ''serverId'') \<or> js_not (js_get (JObj body) ''serverName'')
     \<or> js_not (js_get (JObj body) ''status'')"
  shows "post_health_check now body m =
     (count_error (count_request m),
      \<lparr>http_status = 400, json_body = JObj [(''error'', JStr ''Missing required fields'')]\<rparr>, [])"
  using assms unfolding post_health_check_def Let_def by (simp del: js_not.simps js_get.simps)

text \<open>
  Claim C3, as the code has it. When one of \<^verbatim>\<open>serverId\<close>, \<^verbatim>\<open>serverName\<close> and
  \<^verbatim>\<open>status\<close> is falsy in the body (absent, the empty string, and also \<^verbatim>\<open>null\<close>,
  \<^verbatim>\<open>0\<close> and \<^verbatim>\<open>false\<close>), the handler answers 400 with
  \<^verbatim>\<open>{error: "Missing required fields"}\<close> and writes no log entry. The error counter
  goes up by exactly one and so does the request counter, which the handler increments
  before it looks at the body. The table of servers, the history, the start time and the
  time of the last update stay as they were.
\<close>

theorem invalid_report_rejected:
  assumes "f \<in> {''serverId'', ''serverName'', ''status''}"
    and "js_not (js_get (JObj body) f)"
  shows "snd (post_health_check now body m) =
           (\<lparr>http_status = 400,
             json_body = JObj [(''error'', JStr ''Missing required fields'')]\<rparr>, [])
       \<and> fst (post_health_check now body m) = count_error (count_request m)
       \<and> errorCount (systemStats (fst (post_health_check now body m)))
           = errorCount (systemStats m) + 1
       \<and> totalRequests (systemStats (fst (post_health_check now body m)))
           = totalRequests (systemStats m) + 1
       \<and> startTime (systemStats (fst (post_health_check now body m)))
           = startTime (systemStats m)
       \<and> lastUpdate (systemStats (fst (post_health_check now body m)))
           = lastUpdate (systemStats m)
       \<and> servers (fst (post_health_check now body m)) = servers m
       \<and> history (fst (post_health_check now body m)) = history m"
proof -
  from assms have "js_not (js_get (JObj body) ''serverId'')
      \<or> js_not (js_get (JObj body) ''serverName'') \<or> js_not (js_get (JObj body) ''status'')"
    by (auto simp del: js_not.simps js_get.simps)
  then show ?thesis
    by (simp add: post_invalid count_request_simps count_error_simps
          del: js_not.simps js_get.simps)
qed

text \<open>The scenario of the specification: a report without \<^verbatim>\<open>status\<close>, sent to the
  freshly started service.\<close>

theorem invalid_report_rejected_witness:
  "''status'' \<in> {''serverId'', ''serverName'', ''status''}
   \<and> js_not (js_get (JObj [(''serverId'', JStr ''github''),
                           (''serverName'', JStr ''GitHub MCP'')]) ''status'')
   \<and> http_status (fst (snd (post_health_check 5
         [(''serverId'', JStr ''github''), (''serverName'', JStr ''GitHub MCP'')]
         (initial 0 0)))) = 400
   \<and> errorCount (systemStats (fst (post_health_check 5
         [(''serverId'', JStr ''github''), (''serverName'', JStr ''GitHub MCP'')]
         (initial 0 0)))) = 1
   \<and> totalRequests (systemStats (fst (post_health_check 5
         [(''serverId'', JStr ''github''), (''serverName'', JStr ''GitHub MCP'')]
         (initial 0 0)))) = 1
   \<and> own (servers (fst (post_health_check 5
         [(''serverId'', JStr ''github''), (''serverName'', JStr ''GitHub MCP'')]
         (initial 0 0)))) = []"
  using invalid_report_rejected [of "''status''"
      "[(''serverId'', JStr ''github''), (''serverName'', JStr ''GitHub MCP'')]" 5 "initial 0 0"]
  by (simp add: initial_def count_request_def count_error_def)

text \<open>
  Claim C3 as the specification states it, with no mutation but the increment of the error
  counter, is false: a rejected report to the fresh service leaves the request counter
  at 1.
\<close>

theorem invalid_report_counts_request_counterexample:
  "\<not> (\<forall>now body m. js_not (js_get (JObj body) ''status'') \<longrightarrow>
        fst (post_health_check now body m) = count_error m)"
proof
  assume a: "\<forall>now body m. js_not (js_get (JObj body) ''status'') \<longrightarrow>
        fst (post_health_check now body m) = count_error m"
  have "js_not (js_get (JObj []) ''status'')" by simp
  with a have "fst (post_health_check 0 [] (initial 0 0)) = count_error (initial 0 0)"
    by blast
  then have "totalRequests (systemStats (fst (post_health_check 0 [] (initial 0 0))))
     = totalRequests (systemStats (count_error (initial 0 0)))" by simp
  then show False
    by (simp add: post_health_check_def count_error_def count_request_def initial_def)
qed

section \<open>Reading the metrics\<close>

lemma collectMetrics_history:
  "history (fst (collectMetrics now m)) =
     (if length (history m) < 100 then history m @ [currentMetrics now m]
      else tl (history m @ [currentMetrics now m]))"
  by (simp add: collectMetrics_def Let_def)

lemma collectMetrics_frame:
  "servers (fst (collectMetrics now m)) = servers m"
  "startTime (systemStats (fst (collectMetrics now m))) = startTime (systemStats m)"
  "totalRequests (systemStats (fst (collectMetrics now m))) = totalRequests (systemStats m)"
  "errorCount (systemStats (fst (collectMetrics now m))) = errorCount (systemStats m)"
  "lastUpdate (systemStats (fst (collectMetrics now m))) = now"
  by (simp_all add: collectMetrics_def Let_def)

lemma get_metrics_state:
  "fst (get_metrics now t1 t2 m) = fst (collectMetrics now (count_request m))"
  by (simp add: get_metrics_def Let_def split: prod.splits)

text \<open>
  Claim C6. \<^verbatim>\<open>GET /api/metrics\<close> takes a sample on every call: the sample, computed
  after the request has been counted, is appended to the history, which grows by one
  entry while it holds fewer than 100 and otherwise loses its oldest entry. The read
  changes neither the table of servers nor the error counter nor the start time; the
  request counter goes up by one. (Taking the sample also sets \<^verbatim>\<open>lastUpdate\<close> to the
  time of the sample.)
\<close>

theorem metrics_read_samples:
  "history (fst (get_metrics now t1 t2 m)) =
     (if length (history m) < 100 then history m @ [currentMetrics now (count_request m)]
      else tl (history m @ [currentMetrics now (count_request m)]))
   \<and> length (history (fst (get_metrics now t1 t2 m))) =
     (if length (history m) < 100 then length (history m) + 1 else length (history m))
   \<and> servers (fst (get_metrics now t1 t2 m)) = servers m
   \<and> totalRequests (systemStats (fst (get_metrics now t1 t2 m)))
       = totalRequests (systemStats m) + 1
   \<and> errorCount (systemStats (fst (get_metrics now t1 t2 m))) = errorCount (systemStats m)
   \<and> startTime (systemStats (fst (get_metrics now t1 t2 m))) = startTime (systemStats m)
   \<and> lastUpdate (systemStats (fst (get_metrics now t1 t2 m))) = now"
  by (simp add: get_metrics_state collectMetrics_history collectMetrics_frame
        count_request_simps)

lemma get_metrics_current:
  "js_get (json_body (fst (snd (get_metrics now t1 t2 m)))) ''current'' =
     JObj [(''timestamp'', JNum t1),
           (''uptime'', JNum (t2 - startTime (systemStats m))),
           (''totalRequests'', JNum (totalRequests (systemStats m) + 1)),
           (''errorCount'', JNum (errorCount (systemStats m))),
           (''servers'', servers_json (servers m)),
           (''serverCount'', JNum (server_count m)),
           (''healthyCount'', JNum (healthy_count m))]"
  by (simp add: get_metrics_def Let_def collectMetrics_def count_request_def
        server_count_def healthy_count_def split: prod.splits)

text \<open>
  In the answer of \<^verbatim>\<open>GET /api/metrics\<close>, \<^verbatim>\<open>healthyCount\<close> is the number of own
  properties of the table whose stored status is exactly the string \<^verbatim>\<open>healthy\<close>,
  \<^verbatim>\<open>serverCount\<close> is the number of own properties of the table (what \<^verbatim>\<open>Object.values\<close>
  and \<^verbatim>\<open>Object.keys\<close> enumerate), and the first is at most the second.
\<close>

lemma healthy_count_of_own_entries:
  "js_get (js_get (json_body (fst (snd (get_metrics now t1 t2 m)))) ''current'') ''healthyCount''
     = JNum (int (length (filter (\<lambda>s. status s = JStr ''healthy'') (map snd (own (servers m))))))
   \<and> js_get (js_get (json_body (fst (snd (get_metrics now t1 t2 m)))) ''current'') ''serverCount''
     = JNum (int (length (own (servers m))))
   \<and> int (length (filter (\<lambda>s. status s = JStr ''healthy'') (map snd (own (servers m)))))
     \<le> int (length (own (servers m)))"
proof -
  have "length (filter (\<lambda>s. status s = JStr ''healthy'') (map snd (own (servers m))))
      \<le> length (map snd (own (servers m)))"
    by (rule length_filter_le)
  then show ?thesis
    by (simp add: get_metrics_current healthy_count_def server_count_def)
qed

text \<open>
  Claim C7 at one report to the freshly started service,
  \<^verbatim>\<open>{serverId: "__proto__", serverName: "probe", status: "healthy"}\<close>. The report is
  accepted with 200, and the assignment \<^verbatim>\<open>metrics.servers["__proto__"] = {...}\<close> stores
  its entry as the prototype of the table: the table reads it back under that key and the
  detail route answers the key with 200 and the status \<^verbatim>\<open>healthy\<close>. The entry is no own
  property, so \<^verbatim>\<open>Object.values\<close> and \<^verbatim>\<open>Object.keys\<close> pass it over: the next
  \<^verbatim>\<open>GET /api/metrics\<close> answers \<^verbatim>\<open>healthyCount\<close> 0, \<^verbatim>\<open>serverCount\<close> 0 and an empty
  \<^verbatim>\<open>servers\<close>, where the claim asks that the healthy count credits every service whose
  stored status is \<^verbatim>\<open>healthy\<close>.
\<close>

theorem healthy_count_misses_prototype_entry:
  "http_status (fst (snd (post_health_check 1
       [(''serverId'', JStr ''__proto__''), (''serverName'', JStr ''probe''),
        (''status'', JStr ''healthy'')] (initial 0 0)))) = 200
   \<and> get_server (servers (fst (post_health_check 1
       [(''serverId'', JStr ''__proto__''), (''serverName'', JStr ''probe''),
        (''status'', JStr ''healthy'')] (initial 0 0)))) ''__proto__''
     = Rec \<lparr>name = JStr ''probe'', status = JStr ''healthy'', responseTime = JUndefined,
            error = JUndefined, lastChecked = 1, checksCount = JNum 1\<rparr>
   \<and> http_status (fst (snd (get_server_metrics ''__proto__'' (fst (post_health_check 1
       [(''serverId'', JStr ''__proto__''), (''serverName'', JStr ''probe''),
        (''status'', JStr ''healthy'')] (initial 0 0)))))) = 200
   \<and> js_get (json_body (fst (snd (get_server_metrics ''__proto__'' (fst (post_health_check 1
       [(''serverId'', JStr ''__proto__''), (''serverName'', JStr ''probe''),
        (''status'', JStr ''healthy'')] (initial 0 0))))))) ''status'' = JStr ''healthy''
   \<and> js_get (js_get (json_body (fst (snd (get_metrics 2 3 4 (fst (post_health_check 1
       [(''serverId'', JStr ''__proto__''), (''serverName'', JStr ''probe''),
        (''status'', JStr ''healthy'')] (initial 0 0))))))) ''current'') ''healthyCount''
     = JNum 0
   \<and> js_get (js_get (json_body (fst (snd (get_metrics 2 3 4 (fst (post_health_check 1
       [(''serverId'', JStr ''__proto__''), (''serverName'', JStr ''probe''),
        (''status'', JStr ''healthy'')] (initial 0 0))))))) ''current'') ''serverCount''
     = JNum 0
   \<and> js_get (js_get (json_body (fst (snd (get_metrics 2 3 4 (fst (post_health_check 1
       [(''serverId'', JStr ''__proto__''), (''serverName'', JStr ''probe''),
        (''status'', JStr ''healthy'')] (initial 0 0))))))) ''current'') ''servers''
     = JObj []"
  by (simp add: handler_defs Let_def)

section \<open>The bounded history\<close>

lemma js_slice_last: "0 < n \<Longrightarrow> js_slice (- int n) xs = drop (length xs - n) xs"
  by (auto simp add: js_slice_def nat_diff_distrib')

lemma server_error_servers: "servers (fst (server_error m)) = servers m"
  by (simp add: server_error_def count_error_simps)

lemma server_error_history: "history (fst (server_error m)) = history m"
  by (simp add: server_error_def count_error_simps)

lemma post_health_check_history: "history (fst (post_health_check now body m)) = history m"
  unfolding post_health_check_def Let_def
  by (simp add: count_request_simps count_error_simps server_error_history
        split: option.splits del: js_get.simps js_not.simps)

lemma get_server_metrics_history: "history (fst (get_server_metrics k m)) = history m"
  by (simp add: get_server_metrics_def Let_def count_request_simps count_error_simps)

lemma get_logs_history: "history (fst (get_logs q lv file m)) = history m"
  by (simp add: get_logs_def Let_def count_request_simps count_error_simps split: sum.splits)

lemma get_health_history: "history (fst (get_health t1 t2 m)) = history m"
  by (simp add: get_health_def Let_def count_request_simps)

lemma collectMetrics_bounded:
  "length (history m) \<le> 100 \<Longrightarrow> length (history (fst (collectMetrics now m))) \<le> 100"
  by (simp add: collectMetrics_history)

lemma step_bounded:
  "length (history m) \<le> 100 \<Longrightarrow> length (history (step m e)) \<le> 100"
  by (cases e)
    (simp_all add: post_health_check_history get_server_metrics_history get_logs_history
       get_health_history get_metrics_state collectMetrics_bounded count_request_simps
       server_error_history)

lemma run_bounded:
  "length (history m) \<le> 100 \<Longrightarrow> length (history (run m evs)) \<le> 100"
  unfolding run_def by (induction evs arbitrary: m) (simp_all add: step_bounded)

lemma run_snoc: "run m (evs @ [e]) = step (run m evs) e"
  by (simp add: run_def)

lemma currentMetrics_cong:
  assumes "servers m' = servers m"
    and "startTime (systemStats m') = startTime (systemStats m)"
    and "totalRequests (systemStats m') = totalRequests (systemStats m)"
    and "errorCount (systemStats m') = errorCount (systemStats m)"
  shows "currentMetrics now m' = currentMetrics now m"
  using assms by (simp add: currentMetrics_def server_count_def healthy_count_def)

lemma ticks_frame:
  "servers (run m (map Tick ts)) = servers m
   \<and> startTime (systemStats (run m (map Tick ts))) = startTime (systemStats m)
   \<and> totalRequests (systemStats (run m (map Tick ts))) = totalRequests (systemStats m)
   \<and> errorCount (systemStats (run m (map Tick ts))) = errorCount (systemStats m)"
  by (induction ts rule: rev_induct) (simp_all add: run_def collectMetrics_frame)

lemma tl_drop_snoc:
  assumes "k < length xs"
  shows "tl (drop k xs @ [x]) = drop (Suc k) (xs @ [x])"
proof -
  from assms have "drop k xs \<noteq> []" by simp
  then have "tl (drop k xs @ [x]) = tl (drop k xs) @ [x]" by simp
  also have "tl (drop k xs) = drop (Suc k) xs" by (simp add: drop_Suc tl_drop)
  finally show ?thesis using assms by simp
qed

text \<open>After any number of samples the history is the tail of everything that was
  pushed: what exceeds 100 entries has been shifted out at the front.\<close>

lemma ticks_history:
  assumes "length (history m) \<le> 100"
  shows "history (run m (map Tick ts)) =
     drop (length (history m) + length ts - 100)
       (history m @ map (\<lambda>t. currentMetrics t m) ts)"
proof (induction ts rule: rev_induct)
  case Nil
  with assms show ?case by (simp add: run_def)
next
  case (snoc t ts)
  let ?all = "history m @ map (\<lambda>t. currentMetrics t m) ts"
  let ?n = "length (history m) + length ts"
  have cur: "currentMetrics t (run m (map Tick ts)) = currentMetrics t m"
    using ticks_frame [of m ts] by (intro currentMetrics_cong) simp_all
  have H: "history (run m (map Tick ts)) = drop (?n - 100) ?all"
    by (rule snoc.IH)
  have len: "length (history (run m (map Tick ts))) < 100 \<longleftrightarrow> ?n < 100"
    unfolding H by (simp add: less_diff_conv) arith
  have "history (run m (map Tick (ts @ [t]))) =
      history (fst (collectMetrics t (run m (map Tick ts))))"
    by (simp add: run_snoc)
  also have "\<dots> = (if ?n < 100 then history (run m (map Tick ts)) @ [currentMetrics t m]
       else tl (history (run m (map Tick ts)) @ [currentMetrics t m]))"
    by (simp only: collectMetrics_history cur len)
  also have "\<dots> = (if ?n < 100 then drop (?n - 100) ?all @ [currentMetrics t m]
       else tl (drop (?n - 100) ?all @ [currentMetrics t m]))"
    by (simp only: H)
  also have "\<dots> = drop (?n + 1 - 100) (?all @ [currentMetrics t m])"
  proof (cases "?n < 100")
    case True
    then show ?thesis by simp
  next
    case False
    then have k: "?n - 100 < length ?all" by simp
    from False have s: "Suc (?n - 100) = ?n + 1 - 100" by arith
    show ?thesis
      unfolding if_not_P [OF False] tl_drop_snoc [OF k] s by (rule refl)
  qed
  finally show ?case by simp
qed

lemma get_metrics_history_json:
  "js_get (json_body (fst (snd (get_metrics now t1 t2 m)))) ''history'' =
     JArr (map sample_json (js_slice (- 20) (history (fst (get_metrics now t1 t2 m)))))"
  by (simp add: get_metrics_def Let_def split: prod.splits)

text \<open>
  Claim C4. Whatever the service goes through (requests to any route, ticks of the
  timer, in any number and order), the history never holds more than 100 samples, from
  any state that respects the bound and so from the initial state. \<^verbatim>\<open>collectMetrics\<close>
  appends its sample and drops the oldest one when 101 would be held. After 150 successive
  samples the history consists of the last 100 of them, in the order in which they were
  taken. \<^verbatim>\<open>GET /api/metrics\<close> returns the last 20 samples of the history (all of them
  when there are fewer), oldest first: at most \<open>min 20 100\<close> entries. The other read of
  the history, in the detail route, is cut to the same window of 20.
\<close>

theorem history_bounded_and_recent:
  assumes "length (history m) \<le> 100" and "length ts = 150"
  shows "length (history (run m evs)) \<le> 100
    \<and> length (history (run (initial t0 t0') evs)) \<le> 100
    \<and> history (fst (collectMetrics now m)) =
        drop (length (history m) + 1 - 100) (history m @ [currentMetrics now m])
    \<and> history (run m (map Tick ts)) = map (\<lambda>t. currentMetrics t m) (drop 50 ts)
    \<and> map timestamp (history (run m (map Tick ts))) = drop 50 ts
    \<and> length (history (run m (map Tick ts))) = 100
    \<and> js_get (json_body (fst (snd (get_metrics now t1 t2 m)))) ''history'' =
        JArr (map sample_json
          (drop (length (history (fst (get_metrics now t1 t2 m))) - 20)
             (history (fst (get_metrics now t1 t2 m)))))
    \<and> length (drop (length (history (fst (get_metrics now t1 t2 m))) - 20)
             (history (fst (get_metrics now t1 t2 m)))) \<le> min 20 100
    \<and> length (js_slice (- 20) (map (history_point server) (history m))) \<le> min 20 100"
proof -
  have a: "length (history (run m evs)) \<le> 100"
    using assms(1) by (rule run_bounded)
  have b: "length (history (run (initial t0 t0') evs)) \<le> 100"
    by (rule run_bounded) (simp add: initial_def)
  have c: "history (fst (collectMetrics now m)) =
        drop (length (history m) + 1 - 100) (history m @ [currentMetrics now m])"
    using ticks_history [OF assms(1), of "[now]"] by (simp add: run_def)
  have "history (run m (map Tick ts)) =
      drop (length (history m) + 50) (history m @ map (\<lambda>t. currentMetrics t m) ts)"
    using ticks_history [OF assms(1), of ts] assms(2) by simp
  then have d: "history (run m (map Tick ts)) = map (\<lambda>t. currentMetrics t m) (drop 50 ts)"
    by (simp add: drop_map)
  have e: "map timestamp (history (run m (map Tick ts))) = drop 50 ts"
    unfolding d by (simp add: currentMetrics_def comp_def)
  have f: "length (history (run m (map Tick ts))) = 100"
    unfolding d using assms(2) by simp
  have g: "js_get (json_body (fst (snd (get_metrics now t1 t2 m)))) ''history'' =
        JArr (map sample_json
          (drop (length (history (fst (get_metrics now t1 t2 m))) - 20)
             (history (fst (get_metrics now t1 t2 m)))))"
    using js_slice_last [of 20 "history (fst (get_metrics now t1 t2 m))"]
    by (simp add: get_metrics_history_json)
  have h: "length (drop (length (history (fst (get_metrics now t1 t2 m))) - 20)
             (history (fst (get_metrics now t1 t2 m)))) \<le> min 20 100"
    by simp
  have i: "length (js_slice (- 20) (map (history_point server) (history m))) \<le> min 20 100"
    using js_slice_last [of 20 "map (history_point server) (history m)"] by simp
  from a b c d e f g h i show ?thesis by (intro conjI)
qed

text \<open>The scenario of the specification: 150 samples, taken at the times 1 to 150 by
  the freshly started service, leave the samples of the times 51 to 150.\<close>

theorem history_bounded_and_recent_witness:
  "length (history (initial 0 0)) \<le> 100
   \<and> length (map int [1..<151]) = 150
   \<and> map timestamp (history (run (initial 0 0) (map Tick (map int [1..<151]))))
       = map int [51..<151]
   \<and> length (history (run (initial 0 0) (map Tick (map int [1..<151])))) = 100"
proof -
  have a: "length (history (initial 0 0)) \<le> 100" by (simp add: initial_def)
  have b: "length (map int [1..<151]) = 150" by simp
  have c: "drop 50 (map int [1..<151]) = map int [51..<151]"
    by (simp add: drop_map)
  note facts = history_bounded_and_recent [OF a b, of "[]" 0 0 0 0 0 "Val JUndefined"]
  from facts have d: "map timestamp (history (run (initial 0 0) (map Tick (map int [1..<151]))))
      = drop 50 (map int [1..<151])"
    by blast
  from facts have e: "length (history (run (initial 0 0) (map Tick (map int [1..<151])))) = 100"
    by blast
  from a b d e show ?thesis
    unfolding c by (intro conjI)
qed

section \<open>Server detail\<close>

lemma obj_literal_last: "js_get (obj_literal (kvs @ [(k, v)])) k = v"
  by (simp add: obj_literal_def update_conv')

lemma get_set_server: "get_server (set_server sv k r) k = Rec r"
  by (simp add: get_server_def set_server_def update_conv')

lemma get_server_metrics_servers: "servers (fst (get_server_metrics k m)) = servers m"
  by (simp add: get_server_metrics_def Let_def count_request_simps count_error_simps)

lemma get_server_metrics_found:
  assumes "get_server (servers m) k = Rec r"
  shows "get_server_metrics k m =
    (count_request m,
     \<lparr>http_status = 200,
      json_body = obj_literal ([(''serverId'', JStr k)] @ server_fields r @
         [(''history'', JArr (js_slice (- 20) (map (history_point (Rec r)) (history m))))])\<rparr>,
     [])"
  using assms by (simp add: get_server_metrics_def Let_def count_request_simps)

lemma detail_fields:
  assumes "get_server (servers m) k = Rec r"
  shows "http_status (fst (snd (get_server_metrics k m))) = 200"
    and "js_get (json_body (fst (snd (get_server_metrics k m)))) ''status'' = status r"
    and "js_get (json_body (fst (snd (get_server_metrics k m)))) ''responseTime''
          = responseTime r"
    and "js_get (json_body (fst (snd (get_server_metrics k m)))) ''checksCount''
          = checksCount r"
    and "js_get (json_body (fst (snd (get_server_metrics k m)))) ''history''
          = JArr (js_slice (- 20) (map (history_point (Rec r)) (history m)))"
proof -
  show "js_get (json_body (fst (snd (get_server_metrics k m)))) ''history''
          = JArr (js_slice (- 20) (map (history_point (Rec r)) (history m)))"
    using obj_literal_last [of "[(''serverId'', JStr k)] @ server_fields r" "''history''"]
    by (simp add: get_server_metrics_found [OF assms])
qed (simp_all add: get_server_metrics_found [OF assms] obj_literal_def server_fields_def)

text \<open>
  Claim C9. For a key whose lookup in the table yields an entry, the detail route answers
  200 and its \<^verbatim>\<open>history\<close> array is built from the last 20 points of the history
  (all of them when there are fewer), oldest first: each element carries the timestamp of
  its point, and every element carries the same status and response time, those of the
  entry at the time of the call, which the answer also shows at its top level.
\<close>

theorem server_detail_history:
  assumes "get_server (servers m) k = Rec r"
  shows "http_status (fst (snd (get_server_metrics k m))) = 200
    \<and> js_get (json_body (fst (snd (get_server_metrics k m)))) ''history'' =
        JArr (map (\<lambda>h. JObj [(''timestamp'', JNum (timestamp h)), (''status'', status r),
                               (''responseTime'', responseTime r)])
               (drop (length (history m) - 20) (history m)))
    \<and> length (drop (length (history m) - 20) (history m)) \<le> 20
    \<and> js_get (json_body (fst (snd (get_server_metrics k m)))) ''status'' = status r
    \<and> js_get (json_body (fst (snd (get_server_metrics k m)))) ''responseTime''
        = responseTime r"
proof -
  have slice: "js_slice (- 20) (map f (history m)) =
      map f (drop (length (history m) - 20) (history m))" for f :: "sample \<Rightarrow> jsval"
    using js_slice_last [of 20 "map f (history m)"] by (simp add: drop_map)
  have point: "history_point (Rec r) = (\<lambda>h. JObj [(''timestamp'', JNum (timestamp h)),
      (''status'', status r), (''responseTime'', responseTime r)])"
    by (rule ext) (simp add: history_point_def server_fields_def)
  have hist: "js_get (json_body (fst (snd (get_server_metrics k m)))) ''history'' =
        JArr (map (\<lambda>h. JObj [(''timestamp'', JNum (timestamp h)), (''status'', status r),
                               (''responseTime'', responseTime r)])
               (drop (length (history m) - 20) (history m)))"
    using detail_fields(5) [OF assms] by (simp only: slice point)
  show ?thesis
    using hist detail_fields(1-3) [OF assms] by simp
qed

text \<open>A report for \<^verbatim>\<open>github\<close> after one sample: the detail shows the one history
  point with the reported status and response time.\<close>

theorem server_detail_history_witness:
  "get_server (servers (run (initial 0 0)
       [Tick 1, HealthCheck 5 [(''serverId'', JStr ''github''),
                               (''serverName'', JStr ''GitHub MCP''),
                               (''status'', JStr ''healthy''), (''responseTime'', JNum 42)]]))
     ''github''
    = Rec \<lparr>name = JStr ''GitHub MCP'', status = JStr ''healthy'', responseTime = JNum 42,
           error = JUndefined, lastChecked = 5, checksCount = JNum 1\<rparr>
   \<and> js_get (json_body (fst (snd (get_server_metrics ''github'' (run (initial 0 0)
       [Tick 1, HealthCheck 5 [(''serverId'', JStr ''github''),
                               (''serverName'', JStr ''GitHub MCP''),
                               (''status'', JStr ''healthy''), (''responseTime'', JNum 42)]])))))
       ''history''
    = JArr [JObj [(''timestamp'', JNum 1), (''status'', JStr ''healthy''),
                  (''responseTime'', JNum 42)]]"
proof -
  have found: "get_server (servers (run (initial 0 0)
       [Tick 1, HealthCheck 5 [(''serverId'', JStr ''github''),
                               (''serverName'', JStr ''GitHub MCP''),
                               (''status'', JStr ''healthy''), (''responseTime'', JNum 42)]]))
     ''github''
    = Rec \<lparr>name = JStr ''GitHub MCP'', status = JStr ''healthy'', responseTime = JNum 42,
           error = JUndefined, lastChecked = 5, checksCount = JNum 1\<rparr>"
    by (simp add: handler_defs Let_def)
  have hist: "history (run (initial 0 0)
       [Tick 1, HealthCheck 5 [(''serverId'', JStr ''github''),
                               (''serverName'', JStr ''GitHub MCP''),
                               (''status'', JStr ''healthy''), (''responseTime'', JNum 42)]])
     = [\<lparr>timestamp = 1, uptime = 1, h_totalRequests = 0, h_errorCount = 0, h_servers = 0,
         healthyServers = 0\<rparr>]"
    by (simp add: handler_defs Let_def)
  show ?thesis
    using server_detail_history [OF found] found by (simp add: hist)
qed

text \<open>A key that the table neither holds nor inherits is answered with 404; the error
  counter and the request counter go up, nothing else changes.\<close>

lemma detail_unknown:
  assumes "proto (servers m) = None" and "map_of (own (servers m)) k = None"
    and "k \<noteq> ''__proto__''" and "k \<notin> set object_prototype_names"
  shows "get_server_metrics k m =
     (count_error (count_request m),
      \<lparr>http_status = 404, json_body = JObj [(''error'', JStr ''Server not found'')]\<rparr>, [])"
  using assms by (simp add: get_server_metrics_def get_server_def Let_def count_request_simps)

text \<open>
  Claim C8 at the key \<^verbatim>\<open>constructor\<close>, which no report has named: the table of the
  freshly started service has no such entry, but \<^verbatim>\<open>metrics.servers["constructor"]\<close>
  is the function inherited from \<^verbatim>\<open>Object.prototype\<close>, which is truthy. The route
  answers 200 with \<^verbatim>\<open>{serverId: "constructor", history: []}\<close> and leaves the error
  counter at 0, where the claim asks for 404 \<^verbatim>\<open>{error: "Server not found"}\<close>.
\<close>

theorem detail_of_inherited_name:
  "get_server_metrics ''constructor'' (initial 0 0) =
     (count_request (initial 0 0),
      \<lparr>http_status = 200,
       json_body = JObj [(''serverId'', JStr ''constructor''), (''history'', JArr [])]\<rparr>,
      [])
   \<and> errorCount (systemStats (fst (get_server_metrics ''constructor'' (initial 0 0)))) = 0
   \<and> map_of (own (servers (initial 0 0))) ''constructor'' = None"
  by (simp add: handler_defs Let_def)

section \<open>Accepted reports\<close>

lemma get_server_unseen:
  assumes "map_of (own sv) k = None" and "k \<noteq> ''__proto__''"
    and "k \<notin> set [''name'', ''status'', ''responseTime'', ''error'', ''lastChecked'',
                    ''checksCount'']"
  shows "lookup_get (get_server sv k) ''checksCount'' = JUndefined"
  using assms by (auto simp add: get_server_def server_fields_def split: option.splits)

text \<open>What a report does to the table, on every path through the handler.\<close>

lemma post_servers:
  "servers (fst (post_health_check now body m)) =
     (case report_key (HealthCheck now body) of
        None \<Rightarrow> servers m
      | Some k \<Rightarrow>
         (case next_checksCount (lookup_get (get_server (servers m) k) ''checksCount'') of
            None \<Rightarrow> servers m
          | Some c \<Rightarrow> set_server (servers m) k
              \<lparr>name = js_get (JObj body) ''serverName'', status = js_get (JObj body) ''status'',
               responseTime = js_get (JObj body) ''responseTime'',
               error = js_get (JObj body) ''error'', lastChecked = now, checksCount = c\<rparr>))"
  unfolding post_health_check_def Let_def
  by (simp add: count_request_simps count_error_simps server_error_servers
        split: option.splits del: js_get.simps js_not.simps)

text \<open>
  Claim C2, as the code has it. An entry comes into the table through a report only: a
  report that passes the validation, whose key and counter can be computed, stores under
  its key an entry with the name, status, response time and error of the report and the
  time of the call; the status is the reported one, never a default \<^verbatim>\<open>unknown\<close>. A
  query of the detail route, for any key and in any state, leaves the table as it is.
\<close>

theorem record_created_by_report_only:
  assumes "truthy (js_get (JObj body) ''serverId'')"
    and "truthy (js_get (JObj body) ''serverName'')"
    and "truthy (js_get (JObj body) ''status'')"
    and "js_to_string (js_get (JObj body) ''serverId'') = Some k"
    and "next_checksCount (lookup_get (get_server (servers m) k) ''checksCount'') = Some c"
  shows "get_server (servers (fst (post_health_check now body m))) k =
           Rec \<lparr>name = js_get (JObj body) ''serverName'',
                status = js_get (JObj body) ''status'',
                responseTime = js_get (JObj body) ''responseTime'',
                error = js_get (JObj body) ''error'',
                lastChecked = now, checksCount = c\<rparr>
       \<and> servers (fst (get_server_metrics k' m')) = servers m'"
proof -
  from assms have "servers (fst (post_health_check now body m)) =
      set_server (servers m) k
        \<lparr>name = js_get (JObj body) ''serverName'', status = js_get (JObj body) ''status'',
         responseTime = js_get (JObj body) ''responseTime'',
         error = js_get (JObj body) ''error'', lastChecked = now, checksCount = c\<rparr>"
    by (simp add: post_servers del: js_get.simps)
  then show ?thesis
    by (simp add: get_set_server get_server_metrics_servers del: js_get.simps)
qed

theorem record_created_by_report_only_witness:
  "truthy (js_get (JObj [(''serverId'', JStr ''github''), (''serverName'', JStr ''GitHub MCP''),
                         (''status'', JStr ''healthy'')]) ''serverId'')
   \<and> truthy (js_get (JObj [(''serverId'', JStr ''github''), (''serverName'', JStr ''GitHub MCP''),
                         (''status'', JStr ''healthy'')]) ''serverName'')
   \<and> truthy (js_get (JObj [(''serverId'', JStr ''github''), (''serverName'', JStr ''GitHub MCP''),
                         (''status'', JStr ''healthy'')]) ''status'')
   \<and> js_to_string (js_get (JObj [(''serverId'', JStr ''github''),
         (''serverName'', JStr ''GitHub MCP''), (''status'', JStr ''healthy'')]) ''serverId'')
       = Some ''github''
   \<and> next_checksCount
        (lookup_get (get_server (servers (initial 0 0)) ''github'') ''checksCount'')
       = Some (JNum 1)
   \<and> get_server (servers (fst (post_health_check 7
         [(''serverId'', JStr ''github''), (''serverName'', JStr ''GitHub MCP''),
          (''status'', JStr ''healthy'')] (initial 0 0)))) ''github''
       = Rec \<lparr>name = JStr ''GitHub MCP'', status = JStr ''healthy'', responseTime = JUndefined,
              error = JUndefined, lastChecked = 7, checksCount = JNum 1\<rparr>
   \<and> servers (fst (get_server_metrics ''ghost'' (initial 0 0))) = servers (initial 0 0)"
proof -
  have a: "truthy (js_get (JObj [(''serverId'', JStr ''github''),
              (''serverName'', JStr ''GitHub MCP''), (''status'', JStr ''healthy'')])
            ''serverId'')"
   and b: "truthy (js_get (JObj [(''serverId'', JStr ''github''),
              (''serverName'', JStr ''GitHub MCP''), (''status'', JStr ''healthy'')])
            ''serverName'')"
   and c: "truthy (js_get (JObj [(''serverId'', JStr ''github''),
              (''serverName'', JStr ''GitHub MCP''), (''status'', JStr ''healthy'')])
            ''status'')"
   and d: "js_to_string (js_get (JObj [(''serverId'', JStr ''github''),
         (''serverName'', JStr ''GitHub MCP''), (''status'', JStr ''healthy'')]) ''serverId'')
       = Some ''github''"
    by simp_all
  have e: "next_checksCount
        (lookup_get (get_server (servers (initial 0 0)) ''github'') ''checksCount'')
       = Some (JNum 1)"
    by (simp add: handler_defs)
  show ?thesis
    using record_created_by_report_only [OF a b c d e, of 7 "''ghost''" "initial 0 0"] a b c d e
    by simp
qed

text \<open>
  Claim C2 as the specification states it is false. A query for the unseen key
  \<^verbatim>\<open>ghost\<close> is answered with 404 and creates nothing: the table is still empty and the
  key still reads as \<open>undefined\<close>. And the entry that a first report creates has the
  reported status \<^verbatim>\<open>healthy\<close>, not \<^verbatim>\<open>unknown\<close>.
\<close>

theorem query_creates_nothing_counterexample:
  "http_status (fst (snd (get_server_metrics ''ghost'' (initial 0 0)))) = 404
   \<and> own (servers (fst (get_server_metrics ''ghost'' (initial 0 0)))) = []
   \<and> get_server (servers (fst (get_server_metrics ''ghost'' (initial 0 0)))) ''ghost''
       = Val JUndefined
   \<and> lookup_get (get_server (servers (fst (post_health_check 7
         [(''serverId'', JStr ''github''), (''serverName'', JStr ''GitHub MCP''),
          (''status'', JStr ''healthy'')] (initial 0 0)))) ''github'') ''status''
       = JStr ''healthy''"
  by (simp add: handler_defs Let_def)

text \<open>
  Claim C1, as the code has it. The handler reads the fields \<^verbatim>\<open>serverId\<close> and
  \<^verbatim>\<open>serverName\<close>. A report
  \<^verbatim>\<open>{serverId: "github", serverName: "GitHub MCP", status: "healthy", responseTime: 42}\<close>
  to a service whose table has no entry \<^verbatim>\<open>github\<close> is answered with 200 and
  \<^verbatim>\<open>{success: true, message: "Health check recorded"}\<close>, and the detail route then
  answers \<^verbatim>\<open>github\<close> with 200 and \<^verbatim>\<open>checksCount\<close> 1, \<^verbatim>\<open>status\<close> \<^verbatim>\<open>healthy\<close> and
  \<^verbatim>\<open>responseTime\<close> 42.
\<close>

theorem report_then_detail:
  assumes "map_of (own (servers m)) ''github'' = None"
  shows "fst (snd (post_health_check now
            [(''serverId'', JStr ''github''), (''serverName'', JStr ''GitHub MCP''),
             (''status'', JStr ''healthy''), (''responseTime'', JNum 42)] m))
         = \<lparr>http_status = 200,
            json_body = JObj [(''success'', JBool True),
                              (''message'', JStr ''Health check recorded'')]\<rparr>
    \<and> http_status (fst (snd (get_server_metrics ''github'' (fst (post_health_check now
            [(''serverId'', JStr ''github''), (''serverName'', JStr ''GitHub MCP''),
             (''status'', JStr ''healthy''), (''responseTime'', JNum 42)] m))))) = 200
    \<and> js_get (json_body (fst (snd (get_server_metrics ''github'' (fst (post_health_check now
            [(''serverId'', JStr ''github''), (''serverName'', JStr ''GitHub MCP''),
             (''status'', JStr ''healthy''), (''responseTime'', JNum 42)] m))))))
         ''checksCount'' = JNum 1
    \<and> js_get (json_body (fst (snd (get_server_metrics ''github'' (fst (post_health_check now
            [(''serverId'', JStr ''github''), (''serverName'', JStr ''GitHub MCP''),
             (''status'', JStr ''healthy''), (''responseTime'', JNum 42)] m))))))
         ''status'' = JStr ''healthy''
    \<and> js_get (json_body (fst (snd (get_server_metrics ''github'' (fst (post_health_check now
            [(''serverId'', JStr ''github''), (''serverName'', JStr ''GitHub MCP''),
             (''status'', JStr ''healthy''), (''responseTime'', JNum 42)] m))))))
         ''responseTime'' = JNum 42"
proof -
  let ?body = "[(''serverId'', JStr ''github''), (''serverName'', JStr ''GitHub MCP''),
             (''status'', JStr ''healthy''), (''responseTime'', JNum 42)]"
  let ?r = "\<lparr>name = JStr ''GitHub MCP'', status = JStr ''healthy'', responseTime = JNum 42,
           error = JUndefined, lastChecked = now, checksCount = JNum 1\<rparr>"
  have unseen: "lookup_get (get_server (servers (count_request m)) ''github'') ''checksCount''
      = JUndefined"
    using assms by (intro get_server_unseen) (simp_all add: count_request_simps)
  have post: "post_health_check now ?body m =
     ((count_request m)\<lparr>servers := set_server (servers (count_request m)) ''github'' ?r\<rparr>,
      \<lparr>http_status = 200,
       json_body = JObj [(''success'', JBool True),
                         (''message'', JStr ''Health check recorded'')]\<rparr>,
      [\<lparr>level = ''info'', message = ''Health check for GitHub MCP'',
        data = JObj [(''serverId'', JStr ''github''), (''status'', JStr ''healthy''),
                     (''responseTime'', JNum 42), (''error'', JUndefined)]\<rparr>])"
    by (simp add: post_health_check_def Let_def unseen next_checksCount_def)
  have found: "get_server (servers (fst (post_health_check now ?body m))) ''github'' = Rec ?r"
    by (simp add: post get_set_server)
  show ?thesis
    using detail_fields(1-4) [OF found] by (simp add: post)
qed

theorem report_then_detail_witness:
  "map_of (own (servers (initial 0 0))) ''github'' = None
   \<and> http_status (fst (snd (post_health_check 5
        [(''serverId'', JStr ''github''), (''serverName'', JStr ''GitHub MCP''),
         (''status'', JStr ''healthy''), (''responseTime'', JNum 42)] (initial 0 0)))) = 200
   \<and> js_get (json_body (fst (snd (get_server_metrics ''github'' (fst (post_health_check 5
        [(''serverId'', JStr ''github''), (''serverName'', JStr ''GitHub MCP''),
         (''status'', JStr ''healthy''), (''responseTime'', JNum 42)] (initial 0 0)))))))
       ''checksCount'' = JNum 1
   \<and> js_get (json_body (fst (snd (get_server_metrics ''github'' (fst (post_health_check 5
        [(''serverId'', JStr ''github''), (''serverName'', JStr ''GitHub MCP''),
         (''status'', JStr ''healthy''), (''responseTime'', JNum 42)] (initial 0 0)))))))
       ''status'' = JStr ''healthy''
   \<and> js_get (json_body (fst (snd (get_server_metrics ''github'' (fst (post_health_check 5
        [(''serverId'', JStr ''github''), (''serverName'', JStr ''GitHub MCP''),
         (''status'', JStr ''healthy''), (''responseTime'', JNum 42)] (initial 0 0)))))))
       ''responseTime'' = JNum 42"
proof -
  have a: "map_of (own (servers (initial 0 0))) ''github'' = None"
    by (simp add: initial_def)
  show ?thesis
    using report_then_detail [OF a, of 5] a by simp
qed

text \<open>
  Claim C1 as the specification states it is false: the body of the scenario, with the
  fields \<^verbatim>\<open>serviceId\<close> and \<^verbatim>\<open>serviceName\<close>, is rejected with 400 by the freshly
  started service, and the detail route then answers \<^verbatim>\<open>github\<close> with 404.
\<close>

theorem report_field_names_counterexample:
  "http_status (fst (snd (post_health_check 5
       [(''serviceId'', JStr ''github''), (''serviceName'', JStr ''GitHub MCP''),
        (''status'', JStr ''healthy''), (''responseTime'', JNum 42)] (initial 0 0)))) = 400
   \<and> http_status (fst (snd (get_server_metrics ''github'' (fst (post_health_check 5
       [(''serviceId'', JStr ''github''), (''serviceName'', JStr ''GitHub MCP''),
        (''status'', JStr ''healthy''), (''responseTime'', JNum 42)] (initial 0 0)))))) = 404"
  by (simp add: handler_defs Let_def)

section \<open>The check counter\<close>

lemma step_servers_other:
  "report_key e = None \<Longrightarrow> servers (step m e) = servers m"
  by (cases e)
    (simp_all add: post_servers get_metrics_state collectMetrics_frame count_request_simps
       get_server_metrics_servers get_logs_def get_health_def count_error_simps Let_def
       server_error_servers split: sum.splits del: js_get.simps js_not.simps)

lemma counted_next:
  assumes "counted k n m" and "k \<noteq> ''__proto__''"
  shows "next_checksCount (lookup_get (get_server (servers m) k) ''checksCount'')
     = Some (JNum (int (Suc n)))"
proof (cases "map_of (own (servers m)) k")
  case None
  with assms have "n = 0" and "proto (servers m) = None"
    by (simp_all add: counted_def)
  with None assms(2) show ?thesis
    by (simp add: get_server_def next_checksCount_def)
next
  case (Some r)
  with assms have "0 < n" and "checksCount r = JNum (int n)"
    by (simp_all add: counted_def)
  with Some assms(2) show ?thesis
    by (simp add: get_server_def next_checksCount_def server_fields_def)
qed

lemma counted_step:
  assumes "counted k n m" and "k \<noteq> ''__proto__''" and "report_key e \<noteq> Some ''__proto__''"
  shows "counted k (if report_key e = Some k then Suc n else n) (step m e)"
proof (cases "report_key e")
  case None
  with assms(1) show ?thesis
    by (simp add: counted_def step_servers_other)
next
  case (Some k')
  then obtain now body where e: "e = HealthCheck now body"
    by (cases e) simp_all
  show ?thesis
  proof (cases "k' = k")
    case True
    with Some e counted_next [OF assms(1,2)] assms(1,2) show ?thesis
      by (simp add: post_servers counted_def set_server_def update_conv'
            del: js_get.simps js_not.simps report_key.simps)
  next
    case False
    with Some e assms show ?thesis
      by (auto simp add: post_servers counted_def set_server_def update_conv'
            split: option.splits simp del: js_get.simps js_not.simps report_key.simps)
  qed
qed

lemma counted_run:
  assumes "counted k n m" and "k \<noteq> ''__proto__''"
    and "list_all (\<lambda>e. report_key e \<noteq> Some ''__proto__'') evs"
  shows "counted k (n + length (filter (\<lambda>e. report_key e = Some k) evs)) (run m evs)"
  using assms
proof (induction evs arbitrary: m n)
  case Nil
  then show ?case by (simp add: run_def)
next
  case (Cons e evs)
  from Cons.prems have "counted k (if report_key e = Some k then Suc n else n) (step m e)"
    by (intro counted_step) simp_all
  with Cons.prems have "counted k
     ((if report_key e = Some k then Suc n else n)
        + length (filter (\<lambda>e. report_key e = Some k) evs)) (run (step m e) evs)"
    by (intro Cons.IH) simp_all
  then show ?case
    by (cases "report_key e = Some k") (simp_all add: run_def)
qed

text \<open>
  As long as no report is stored under the key \<^verbatim>\<open>__proto__\<close>, the counter of a key
  is the number of accepted reports for that key, whatever else the service handles in
  between: reports for other keys, rejected reports, queries and samples.
\<close>

lemma check_counter_counts:
  assumes "k \<noteq> ''__proto__''"
    and "list_all (\<lambda>e. report_key e \<noteq> Some ''__proto__'') evs"
    and "0 < length (filter (\<lambda>e. report_key e = Some k) evs)"
  shows "lookup_get (get_server (servers (run (initial t0 t1) evs)) k) ''checksCount''
     = JNum (int (length (filter (\<lambda>e. report_key e = Some k) evs)))"
proof -
  have "counted k 0 (initial t0 t1)"
    by (simp add: counted_def initial_def)
  from counted_run [OF this assms(1,2)] assms(1,3) show ?thesis
    by (auto simp add: counted_def get_server_def server_fields_def split: option.splits)
qed

text \<open>
  Claim C5 at two reports to the freshly started service. The first, accepted with 200,
  names the service \<^verbatim>\<open>__proto__\<close> and carries \<^verbatim>\<open>error: {checksCount: 5}\<close>: the
  assignment \<^verbatim>\<open>metrics.servers["__proto__"] = {...}\<close> makes its entry the prototype of
  the table. The second, accepted with 200 as well, is the first report for the service
  \<^verbatim>\<open>error\<close>: the handler reads \<^verbatim>\<open>metrics.servers["error"]?.checksCount\<close> through the
  prototype, finds 5 and stores 6, where the claim asks for 1 after one report.
\<close>

theorem check_counter_inherited:
  "http_status (fst (snd (post_health_check 1
       [(''serverId'', JStr ''__proto__''), (''serverName'', JStr ''probe''),
        (''status'', JStr ''healthy''), (''error'', JObj [(''checksCount'', JNum 5)])]
       (initial 0 0)))) = 200
   \<and> http_status (fst (snd (post_health_check 2
       [(''serverId'', JStr ''error''), (''serverName'', JStr ''Error service''),
        (''status'', JStr ''healthy'')]
       (fst (post_health_check 1
         [(''serverId'', JStr ''__proto__''), (''serverName'', JStr ''probe''),
          (''status'', JStr ''healthy''), (''error'', JObj [(''checksCount'', JNum 5)])]
         (initial 0 0)))))) = 200
   \<and> lookup_get (get_server (servers (run (initial 0 0)
       [HealthCheck 1 [(''serverId'', JStr ''__proto__''), (''serverName'', JStr ''probe''),
                       (''status'', JStr ''healthy''),
                       (''error'', JObj [(''checksCount'', JNum 5)])],
        HealthCheck 2 [(''serverId'', JStr ''error''), (''serverName'', JStr ''Error service''),
                       (''status'', JStr ''healthy'')]])) ''error'') ''checksCount''
     = JNum 6"
  by (simp add: handler_defs Let_def)

section \<open>The log query\<close>

lemma get_logs_read:
  "get_logs q lv (Inr ls) m =
     (count_request m,
      \<lparr>http_status = 200,
       json_body = JObj
         [(''logs'', JArr (js_slice (- limit_of q) (filteredLogs lv ls))),
          (''total'', JNum (int (length (filteredLogs lv ls)))),
          (''filtered'', JBool (level_given lv))]\<rparr>,
      [])"
  by (simp add: get_logs_def Let_def)

text \<open>
  Claim C10, as the code has it. When the log file can be read and the \<^verbatim>\<open>limit\<close>
  parameter is absent, is not a number or parses to 0, the limit is 100 and the answer
  holds the last \<open>min 100 n\<close> of the \<open>n\<close> entries that pass the level filter. A limit
  that parses to a negative number \<open>n'\<close> is used as it is: \<^verbatim>\<open>slice(-limit)\<close> then
  drops the first \<open>- n'\<close> entries and returns the rest, which is nothing when there are
  at most \<open>- n'\<close> entries.
\<close>

theorem log_limit_fallback:
  assumes "(case q of None \<Rightarrow> None | Some s \<Rightarrow> parseInt s) \<in> {None, Some 0}"
    and "parseInt s' = Some n'" and "n' < 0"
  shows "http_status (fst (snd (get_logs q lv (Inr ls) m))) = 200
    \<and> js_get (json_body (fst (snd (get_logs q lv (Inr ls) m)))) ''logs'' =
        JArr (drop (length (filteredLogs lv ls) - 100) (filteredLogs lv ls))
    \<and> length (drop (length (filteredLogs lv ls) - 100) (filteredLogs lv ls))
        = min 100 (length (filteredLogs lv ls))
    \<and> js_get (json_body (fst (snd (get_logs (Some s') lv (Inr ls) m)))) ''logs'' =
        JArr (drop (nat (- n')) (filteredLogs lv ls))"
proof -
  from assms(1) have "limit_of q = 100"
    by (auto simp add: limit_of_def split: option.splits)
  then have a: "js_slice (- limit_of q) (filteredLogs lv ls) =
      drop (length (filteredLogs lv ls) - 100) (filteredLogs lv ls)"
    using js_slice_last [of 100 "filteredLogs lv ls"] by simp
  from assms(2,3) have "limit_of (Some s') = n'"
    by (simp add: limit_of_def)
  with assms(3) have b: "js_slice (- limit_of (Some s')) (filteredLogs lv ls) =
      drop (nat (- n')) (filteredLogs lv ls)"
    by (simp add: js_slice_def)
  show ?thesis
    by (simp add: get_logs_read a b)
qed

theorem log_limit_fallback_witness:
  "(case Some ''0'' of None \<Rightarrow> None | Some s \<Rightarrow> parseInt s) \<in> {None, Some 0}
   \<and> parseInt ''-1'' = Some (- 1) \<and> (- 1 :: int) < 0
   \<and> js_get (json_body (fst (snd (get_logs (Some ''0'') None
        (Inr [Parsed (JObj [(''level'', JStr ''info'')])]) (initial 0 0))))) ''logs''
      = JArr [JObj [(''level'', JStr ''info'')]]
   \<and> js_get (json_body (fst (snd (get_logs (Some ''-1'') None
        (Inr [Parsed (JObj [(''level'', JStr ''info'')])]) (initial 0 0))))) ''logs''
      = JArr []"
proof -
  have a: "(case Some ''0'' of None \<Rightarrow> None | Some s \<Rightarrow> parseInt s) \<in> {None, Some 0}"
    by (simp add: parse_defs)
  have b: "parseInt ''-1'' = Some (- 1)" by (simp add: parse_defs)
  have c: "(- 1 :: int) < 0" by simp
  show ?thesis
    using log_limit_fallback [OF a b c, of None "[Parsed (JObj [(''level'', JStr ''info'')])]"
        "initial 0 0"] a b
    by (simp add: filteredLogs_def)
qed

text \<open>
  Claim C10 as stated is false in its last part: zero entries can be requested through
  the limit parameter. With one entry in the log file, \<^verbatim>\<open>limit=-1\<close> is answered with
  an empty \<^verbatim>\<open>logs\<close> array and \<^verbatim>\<open>total\<close> 1.
\<close>

theorem negative_limit_counterexample:
  "js_get (json_body (fst (snd (get_logs (Some ''-1'') None
        (Inr [Parsed (JObj [(''level'', JStr ''info'')])]) (initial 0 0))))) ''logs''
      = JArr []
   \<and> js_get (json_body (fst (snd (get_logs (Some ''-1'') None
        (Inr [Parsed (JObj [(''level'', JStr ''info'')])]) (initial 0 0))))) ''total''
      = JNum 1"
  by (simp add: handler_defs parse_defs)

end
